theory Spec2Isabelle
  imports Complex_Main
begin

section \<open>Array elements\<close>

text \<open>
  The notebook \<^verbatim>\<open>k_means_anchor_size.ipynb\<close> computes on numpy arrays. The
  array of boxes has the dtype \<^verbatim>\<open>float64\<close> or \<^verbatim>\<open>int64\<close> (the notebook's own
  dataset is a list of integer pairs); the IoUs, the distances and the medians
  are \<^verbatim>\<open>float64\<close>.

  An element is modelled as a real number, or one of the three special values
  of \<^verbatim>\<open>float64\<close>: \<^verbatim>\<open>inf\<close>, \<^verbatim>\<open>-inf\<close> and \<^verbatim>\<open>nan\<close>. An element of an \<^verbatim>\<open>int64\<close>
  array is an integer from \<open>-2^63\<close> up to \<open>2^63 - 1\<close>.
\<close>

datatype npfloat = Fin real | PInf | NInf | NaN

datatype dtype = Float64 | Int64

text \<open>
  The range of \<^verbatim>\<open>float64\<close>. An operation whose exact result is \<open>r\<close> gives
  \<^item> an infinity when \<open>r\<close> is beyond the largest number by half a unit in the
    last place or more, that is from \<open>2^1024 - 2^970\<close> on;
  \<^item> below the smallest normal number \<open>2^-1022\<close>, where the \<^verbatim>\<open>float64\<close> numbers
    are the multiples of \<open>2^-1074\<close>, the nearest of these multiples, the even
    one on a tie: so zero when \<open>r\<close> is at most \<open>2^-1075\<close> in absolute value;
  \<^item> between the two the nearest \<^verbatim>\<open>float64\<close> number, which differs from \<open>r\<close>
    by a relative error of at most \<open>2^-53\<close>. This last rounding is not
    modelled: the result is taken to be \<open>r\<close> itself. So two results that are
    equal as real numbers are equal in the model, where \<^verbatim>\<open>float64\<close> may tell
    them apart.
  The sign of zero is not modelled either.
\<close>

definition round_half_even :: "real \<Rightarrow> int" where
  "round_half_even x =
    (let f = \<lfloor>x\<rfloor>
     in if x - of_int f < 1 / 2 then f
        else if 1 / 2 < x - of_int f then f + 1
        else if even f then f else f + 1)"

definition float64 :: "real \<Rightarrow> npfloat" where
  "float64 r =
    (if 2 ^ 1024 - 2 ^ 970 \<le> r then PInf
     else if r \<le> - (2 ^ 1024 - 2 ^ 970) then NInf
     else if \<bar>r\<bar> < 1 / 2 ^ 1022 then Fin (of_int (round_half_even (r * 2 ^ 1074)) / 2 ^ 1074)
     else Fin r)"

text \<open>The range of \<^verbatim>\<open>int64\<close>: the result of an operation wraps around modulo
  \<open>2^64\<close>.\<close>

definition int64 :: "real \<Rightarrow> real" where
  "int64 r = r - 2 ^ 64 * of_int \<lfloor>(r + 2 ^ 63) / 2 ^ 64\<rfloor>"

fun isnan :: "npfloat \<Rightarrow> bool" where
  "isnan NaN = True"
| "isnan _ = False"

text \<open>The comparisons \<^verbatim>\<open><\<close>, \<^verbatim>\<open>>=\<close> and \<^verbatim>\<open>==\<close>: false as soon as one side is
  \<^verbatim>\<open>nan\<close>.\<close>

fun fl_less :: "npfloat \<Rightarrow> npfloat \<Rightarrow> bool" where
  "fl_less (Fin a) (Fin b) = (a < b)"
| "fl_less NInf (Fin b) = True"
| "fl_less NInf PInf = True"
| "fl_less (Fin a) PInf = True"
| "fl_less _ _ = False"

definition fl_ge :: "npfloat \<Rightarrow> npfloat \<Rightarrow> bool" where
  "fl_ge a b = (\<not> isnan a \<and> \<not> isnan b \<and> \<not> fl_less a b)"

definition np_eq :: "npfloat \<Rightarrow> npfloat \<Rightarrow> bool" where
  "np_eq a b = (\<not> isnan a \<and> \<not> isnan b \<and> a = b)"

text \<open>The sign of a number that is not \<^verbatim>\<open>nan\<close>, and the infinity of a sign
  (\<^verbatim>\<open>nan\<close> for the sign 0, as in \<^verbatim>\<open>0 * inf\<close> and \<^verbatim>\<open>0 / 0\<close>).\<close>

fun fl_sgn :: "npfloat \<Rightarrow> int" where
  "fl_sgn (Fin a) = (if a < 0 then - 1 else if a = 0 then 0 else 1)"
| "fl_sgn PInf = 1"
| "fl_sgn NInf = - 1"
| "fl_sgn NaN = 0"

definition fl_inf :: "int \<Rightarrow> npfloat" where
  "fl_inf s = (if 0 < s then PInf else if s < 0 then NInf else NaN)"

subsection \<open>The arithmetic of \<^verbatim>\<open>float64\<close>\<close>

fun fl_times :: "npfloat \<Rightarrow> npfloat \<Rightarrow> npfloat" where
  "fl_times (Fin a) (Fin b) = float64 (a * b)"
| "fl_times NaN _ = NaN"
| "fl_times _ NaN = NaN"
| "fl_times a b = fl_inf (fl_sgn a * fl_sgn b)"

fun fl_plus :: "npfloat \<Rightarrow> npfloat \<Rightarrow> npfloat" where
  "fl_plus (Fin a) (Fin b) = float64 (a + b)"
| "fl_plus NaN _ = NaN"
| "fl_plus _ NaN = NaN"
| "fl_plus PInf NInf = NaN"
| "fl_plus NInf PInf = NaN"
| "fl_plus PInf _ = PInf"
| "fl_plus _ PInf = PInf"
| "fl_plus NInf _ = NInf"
| "fl_plus _ NInf = NInf"

fun fl_uminus :: "npfloat \<Rightarrow> npfloat" where
  "fl_uminus (Fin a) = Fin (- a)"
| "fl_uminus PInf = NInf"
| "fl_uminus NInf = PInf"
| "fl_uminus NaN = NaN"

definition fl_minus :: "npfloat \<Rightarrow> npfloat \<Rightarrow> npfloat" where
  "fl_minus a b = fl_plus a (fl_uminus b)"

text \<open>numpy's true division does not raise on a zero divisor: it gives an
  infinity, or \<^verbatim>\<open>nan\<close> for \<^verbatim>\<open>0/0\<close> (with a warning only). The operands of
  \<^verbatim>\<open>int64\<close> arrays are converted to \<^verbatim>\<open>float64\<close> first, so this is the division
  for both dtypes.\<close>

fun fl_divide :: "npfloat \<Rightarrow> npfloat \<Rightarrow> npfloat" where
  "fl_divide (Fin a) (Fin b) = (if b = 0 then fl_inf (fl_sgn (Fin a)) else float64 (a / b))"
| "fl_divide NaN _ = NaN"
| "fl_divide _ NaN = NaN"
| "fl_divide (Fin a) _ = Fin 0"
| "fl_divide a (Fin b) = fl_inf (fl_sgn a * (if b < 0 then - 1 else 1))"
| "fl_divide _ _ = NaN"

subsection \<open>The arithmetic of an array of a given dtype\<close>

text \<open>\<^verbatim>\<open>*\<close>, \<^verbatim>\<open>+\<close> and \<^verbatim>\<open>-\<close> on the elements of two arrays of the dtype \<open>dt\<close>.
  On \<^verbatim>\<open>int64\<close> the result wraps around, silently for arrays and with a
  warning only for scalars. An \<^verbatim>\<open>int64\<close> array holds finite numbers only: the
  second equation of each function is the \<^verbatim>\<open>float64\<close> case.\<close>

fun np_times :: "dtype \<Rightarrow> npfloat \<Rightarrow> npfloat \<Rightarrow> npfloat" where
  "np_times Int64 (Fin a) (Fin b) = Fin (int64 (a * b))"
| "np_times dt a b = fl_times a b"

fun np_plus :: "dtype \<Rightarrow> npfloat \<Rightarrow> npfloat \<Rightarrow> npfloat" where
  "np_plus Int64 (Fin a) (Fin b) = Fin (int64 (a + b))"
| "np_plus dt a b = fl_plus a b"

fun np_minus :: "dtype \<Rightarrow> npfloat \<Rightarrow> npfloat \<Rightarrow> npfloat" where
  "np_minus Int64 (Fin a) (Fin b) = Fin (int64 (a - b))"
| "np_minus dt a b = fl_minus a b"

text \<open>\<^verbatim>\<open>np.minimum\<close> and \<^verbatim>\<open>np.maximum\<close> return the \<^verbatim>\<open>nan\<close> when one of the two
  elements is one; they are exact in both dtypes.\<close>

definition np_minimum :: "npfloat \<Rightarrow> npfloat \<Rightarrow> npfloat" where
  "np_minimum a b = (if isnan a then a else if isnan b then b else if fl_less b a then b else a)"

definition np_maximum :: "npfloat \<Rightarrow> npfloat \<Rightarrow> npfloat" where
  "np_maximum a b = (if isnan a then a else if isnan b then b else if fl_less a b then b else a)"

definition count_nonzero :: "bool list \<Rightarrow> nat" where
  "count_nonzero bs = length (filter (\<lambda>b. b) bs)"

text \<open>The cast of a \<^verbatim>\<open>float64\<close> number that numpy applies when it stores it
  into an array of the dtype \<open>dt\<close>: none for \<^verbatim>\<open>float64\<close>; for \<^verbatim>\<open>int64\<close> the
  number is truncated towards zero. For \<^verbatim>\<open>nan\<close>, the infinities and the
  numbers outside the range of \<^verbatim>\<open>int64\<close> the C cast is undefined: the value here
  is the one of x86-64, \<open>-2^63\<close>.\<close>

fun astype :: "dtype \<Rightarrow> npfloat \<Rightarrow> npfloat" where
  "astype Float64 v = v"
| "astype Int64 (Fin r) =
    (if - (2 ^ 63) - 1 < r \<and> r < 2 ^ 63
     then Fin (of_int (if 0 \<le> r then \<lfloor>r\<rfloor> else \<lceil>r\<rceil>))
     else Fin (- (2 ^ 63)))"
| "astype Int64 v = Fin (- (2 ^ 63))"

section \<open>Boxes and errors\<close>

text \<open>A box is a row \<^verbatim>\<open>[width, height]\<close> of a two-column array; \<^verbatim>\<open>box[0]\<close> is
  \<^term>\<open>fst\<close> and \<^verbatim>\<open>box[1]\<close> is \<^term>\<open>snd\<close>. An array of shape \<^verbatim>\<open>(r, 2)\<close> is a
  list of \<open>r\<close> boxes, together with its dtype.\<close>

type_synonym box = "npfloat \<times> npfloat"

text \<open>Every exception the functions below can raise is a Python
  \<^verbatim>\<open>ValueError\<close>; the constructor tells which statement raised it:
  \<^item> \<open>BoxHasNoArea\<close>: the \<^verbatim>\<open>raise ValueError("Box has no area")\<close> of \<^verbatim>\<open>iou\<close>;
  \<^item> \<open>NegativeDimensions\<close>: \<^verbatim>\<open>np.empty((rows, k))\<close> with a negative \<open>k\<close>;
  \<^item> \<open>EmptyPopulation\<close>, \<open>SampleLargerThanPopulation\<close>:
    \<^verbatim>\<open>np.random.choice(rows, k, replace=False)\<close>;
  \<^item> \<open>EmptyArgmin\<close>: \<^verbatim>\<open>np.argmin\<close> along an axis of length 0;
  \<^item> \<open>EmptyMax\<close>: \<^verbatim>\<open>np.max\<close> of an array of size 0.\<close>

datatype error =
    BoxHasNoArea
  | NegativeDimensions
  | EmptyPopulation
  | SampleLargerThanPopulation
  | EmptyArgmin
  | EmptyMax

text \<open>The boxes the specification calls valid, or of positive area: both sides
  finite and positive.\<close>

fun positive_box :: "box \<Rightarrow> bool" where
  "positive_box (Fin w, Fin h) = (0 < w \<and> 0 < h)"
| "positive_box _ = False"

section \<open>The IoU of a box with k clusters\<close>

text \<open>
  \<^verbatim>\<open>
  def iou(box, clusters):
      x = np.minimum(clusters[:, 0], box[0])
      y = np.minimum(clusters[:, 1], box[1])
      if np.count_nonzero(x == 0) > 0 or np.count_nonzero(y == 0) > 0:
          raise ValueError("Box has no area")
      intersection = x * y
      box_area = box[0] * box[1]
      cluster_area = clusters[:, 0] * clusters[:, 1]
      iou_ = intersection / (box_area + cluster_area - intersection)
      return iou_
  \<close>
  \<open>box\<close> is a row of an array and \<open>clusters\<close> an array of the same dtype \<open>dt\<close>,
  as in every call of the notebook. The products, the sum and the difference
  are computed in that dtype; the quotient is \<^verbatim>\<open>float64\<close>.
\<close>

definition iou :: "dtype \<Rightarrow> box \<Rightarrow> box list \<Rightarrow> error + npfloat list" where
  "iou dt box clusters =
    (let x = map (\<lambda>c. np_minimum (fst c) (fst box)) clusters;
         y = map (\<lambda>c. np_minimum (snd c) (snd box)) clusters
     in if 0 < count_nonzero (map (\<lambda>v. np_eq v (Fin 0)) x) \<or>
           0 < count_nonzero (map (\<lambda>v. np_eq v (Fin 0)) y)
        then Inl BoxHasNoArea
        else
          let intersection = map2 (np_times dt) x y;
              box_area = np_times dt (fst box) (snd box);
              cluster_area = map (\<lambda>c. np_times dt (fst c) (snd c)) clusters;
              iou' = map2 fl_divide intersection
                       (map2 (np_minus dt) (map (np_plus dt box_area) cluster_area) intersection)
          in Inr iou')"

section \<open>The accuracy of a clustering\<close>

text \<open>\<^verbatim>\<open>np.max\<close> raises on an array of size 0 and returns \<^verbatim>\<open>nan\<close> when an
  element is one; \<^verbatim>\<open>np.mean\<close> is the sum divided by the number of elements
  (\<^verbatim>\<open>nan\<close> for no element, with a warning only), in \<^verbatim>\<open>float64\<close>.\<close>

definition np_max :: "npfloat list \<Rightarrow> error + npfloat" where
  "np_max xs = (case xs of [] \<Rightarrow> Inl EmptyMax | x # ys \<Rightarrow> Inr (foldl np_maximum x ys))"

definition np_mean :: "npfloat list \<Rightarrow> npfloat" where
  "np_mean xs = fl_divide (foldl fl_plus (Fin 0) xs) (Fin (real (length xs)))"

text \<open>
  \<^verbatim>\<open>
  def avg_iou(boxes, clusters):
      return np.mean([np.max(iou(boxes[i], clusters)) for i in range(boxes.shape[0])])
  \<close>
  The list comprehension stops at the first box for which \<^verbatim>\<open>iou\<close> or
  \<^verbatim>\<open>np.max\<close> raises.
\<close>

fun best_ious :: "dtype \<Rightarrow> box list \<Rightarrow> box list \<Rightarrow> error + npfloat list" where
  "best_ious dt [] clusters = Inr []"
| "best_ious dt (b # bs) clusters =
    (case iou dt b clusters of
       Inl e \<Rightarrow> Inl e
     | Inr v \<Rightarrow>
        (case np_max v of
           Inl e \<Rightarrow> Inl e
         | Inr m \<Rightarrow>
            (case best_ious dt bs clusters of
               Inl e \<Rightarrow> Inl e
             | Inr ms \<Rightarrow> Inr (m # ms))))"

definition avg_iou :: "dtype \<Rightarrow> box list \<Rightarrow> box list \<Rightarrow> error + npfloat" where
  "avg_iou dt boxes clusters =
    (case best_ious dt boxes clusters of Inl e \<Rightarrow> Inl e | Inr ms \<Rightarrow> Inr (np_mean ms))"

section \<open>k-means with the IoU metric\<close>

subsection \<open>The numpy operations of the loop\<close>

text \<open>\<^verbatim>\<open>np.argmin\<close> of one row, as numpy scans it: the running minimum \<open>mp\<close> at
  index \<open>mi\<close> is replaced by the element at \<open>i\<close> unless that element is \<^verbatim>\<open>>=\<close>
  it, and the scan stops at the first \<^verbatim>\<open>nan\<close>. So the result is the index of
  the first \<^verbatim>\<open>nan\<close> if there is one, and of the first minimum otherwise. On
  an empty row numpy raises: \<open>assignment_step\<close> below does so before it calls
  \<open>np_argmin\<close>.\<close>

fun argmin_scan :: "npfloat \<Rightarrow> nat \<Rightarrow> nat \<Rightarrow> npfloat list \<Rightarrow> nat" where
  "argmin_scan mp mi i [] = mi"
| "argmin_scan mp mi i (x # xs) =
    (if isnan mp then mi
     else if \<not> fl_ge x mp then argmin_scan x i (Suc i) xs
     else argmin_scan mp mi (Suc i) xs)"

fun np_argmin :: "npfloat list \<Rightarrow> nat" where
  "np_argmin [] = 0"
| "np_argmin (x # xs) = argmin_scan x 0 1 xs"

text \<open>\<^verbatim>\<open>np.median(a, axis=0)\<close> of a two-column array is the median of each
  column: the \<^verbatim>\<open>float64\<close> mean of the middle element, or of the two middle
  elements, of the sorted column; \<^verbatim>\<open>nan\<close> when the column holds one, and (the
  mean of an empty slice) when the column is empty.\<close>

fun fl_insort :: "npfloat \<Rightarrow> npfloat list \<Rightarrow> npfloat list" where
  "fl_insort x [] = [x]"
| "fl_insort x (y # ys) = (if fl_less y x then y # fl_insort x ys else x # y # ys)"

definition fl_sort :: "npfloat list \<Rightarrow> npfloat list" where
  "fl_sort xs = foldr fl_insort xs []"

definition median_column :: "npfloat list \<Rightarrow> npfloat" where
  "median_column xs =
    (if list_ex isnan xs then NaN
     else
       let part = fl_sort xs; sz = length xs; index = sz div 2
       in if sz = 0 then np_mean []
          else if sz mod 2 = 1 then np_mean (take 1 (drop index part))
          else np_mean (take 2 (drop (index - 1) part)))"

definition np_median :: "box list \<Rightarrow> box" where
  "np_median a = (median_column (map fst a), median_column (map snd a))"

subsection \<open>The initial clusters\<close>

text \<open>
  \<^verbatim>\<open>
  rows = boxes.shape[0]
  distances = np.empty((rows, k))
  last_clusters = np.zeros((rows,))
  np.random.seed()
  clusters = boxes[np.random.choice(rows, k, replace=False)]
  \<close>
  \<^verbatim>\<open>np.empty\<close> raises on a negative \<open>k\<close> (a \<open>k\<close> too large for the memory of the
  machine is not modelled). \<^verbatim>\<open>np.random.choice\<close> raises when \<open>rows\<close> is 0 and
  \<open>k\<close> is not (an empty population is accepted when no sample is taken), and
  when \<open>k\<close> is greater than \<open>rows\<close>; otherwise it returns \<open>k\<close> distinct indices
  below \<open>rows\<close>, in a random order. The model takes that sample as the argument
  \<open>choice\<close>; \<open>random_choice rows k choice\<close> says that \<open>choice\<close> is one of the
  samples numpy can return. The indexing \<^verbatim>\<open>boxes[...]\<close> copies the sampled
  rows: \<open>clusters\<close> shares nothing with \<open>boxes\<close>, and has its dtype.
\<close>

definition random_choice :: "nat \<Rightarrow> int \<Rightarrow> nat list \<Rightarrow> bool" where
  "random_choice rows k choice =
    (int (length choice) = k \<and> distinct choice \<and> list_all (\<lambda>i. i < rows) choice)"

definition kmeans_init :: "box list \<Rightarrow> int \<Rightarrow> nat list \<Rightarrow> error + box list" where
  "kmeans_init boxes k choice =
    (let rows = length boxes
     in if k < 0 then Inl NegativeDimensions
        else if rows = 0 \<and> k \<noteq> 0 then Inl EmptyPopulation
        else if int rows < k then Inl SampleLargerThanPopulation
        else Inr (map (\<lambda>i. boxes ! i) choice))"

subsection \<open>The assignment step and the update step\<close>

text \<open>
  \<^verbatim>\<open>
  for row in range(rows):
      distances[row] = 1 - iou(boxes[row], clusters)
  nearest_clusters = np.argmin(distances, axis=1)
  \<close>
  The first loop stops at the first row for which \<^verbatim>\<open>iou\<close> raises.
  \<^verbatim>\<open>np.argmin\<close> raises when the rows of \<open>distances\<close> have length 0, that is
  when \<open>k\<close> is 0, whatever the number of rows.
\<close>

fun distance_rows :: "dtype \<Rightarrow> box list \<Rightarrow> box list \<Rightarrow> error + npfloat list list" where
  "distance_rows dt [] clusters = Inr []"
| "distance_rows dt (b # bs) clusters =
    (case iou dt b clusters of
       Inl e \<Rightarrow> Inl e
     | Inr v \<Rightarrow>
        (case distance_rows dt bs clusters of
           Inl e \<Rightarrow> Inl e
         | Inr ds \<Rightarrow> Inr (map (fl_minus (Fin 1)) v # ds)))"

definition assignment_step :: "dtype \<Rightarrow> box list \<Rightarrow> int \<Rightarrow> box list \<Rightarrow> error + nat list" where
  "assignment_step dt boxes k clusters =
    (case distance_rows dt boxes clusters of
       Inl e \<Rightarrow> Inl e
     | Inr distances \<Rightarrow> if k = 0 then Inl EmptyArgmin else Inr (map np_argmin distances))"

text \<open>
  \<^verbatim>\<open>
  for cluster in range(k):
      clusters[cluster] = dist(boxes[nearest_clusters == cluster], axis=0)
  \<close>
  \<open>clusters\<close> has \<open>k\<close> rows. Each of them is overwritten by the aggregate of
  the boxes assigned to it (\<open>dist'\<close> is the parameter \<^verbatim>\<open>dist\<close>, \<^verbatim>\<open>np.median\<close> by
  default), cast to the dtype of \<open>clusters\<close>; no row depends on another one.
\<close>

definition members :: "box list \<Rightarrow> nat list \<Rightarrow> nat \<Rightarrow> box list" where
  "members boxes nearest_clusters cluster =
    map fst (filter (\<lambda>(b, n). n = cluster) (zip boxes nearest_clusters))"

definition update_step ::
  "dtype \<Rightarrow> (box list \<Rightarrow> box) \<Rightarrow> box list \<Rightarrow> int \<Rightarrow> nat list \<Rightarrow> box list" where
  "update_step dt dist' boxes k nearest_clusters =
    map (\<lambda>cluster. map_prod (astype dt) (astype dt) (dist' (members boxes nearest_clusters cluster)))
      [0..<nat k]"

subsection \<open>The loop\<close>

text \<open>
  \<^verbatim>\<open>
  while True:
      (assignment step)
      if (last_clusters == nearest_clusters).all():
          break
      (update step)
      last_clusters = nearest_clusters
  return clusters
  \<close>
  The loop has no bound: a run that never breaks is the value \<open>None\<close>. A run
  that breaks gives the values of \<open>clusters\<close> and \<open>nearest_clusters\<close> at the
  \<^verbatim>\<open>break\<close>; \<open>kmeans\<close> returns the first.
\<close>

partial_function (option) kmeans_loop ::
  "dtype \<Rightarrow> (box list \<Rightarrow> box) \<Rightarrow> box list \<Rightarrow> int \<Rightarrow> box list \<Rightarrow> nat list
    \<Rightarrow> (error + box list \<times> nat list) option" where
  "kmeans_loop dt dist' boxes k clusters last_clusters =
    (case assignment_step dt boxes k clusters of
       Inl e \<Rightarrow> Some (Inl e)
     | Inr nearest_clusters \<Rightarrow>
        if last_clusters = nearest_clusters then Some (Inr (clusters, nearest_clusters))
        else kmeans_loop dt dist' boxes k
               (update_step dt dist' boxes k nearest_clusters) nearest_clusters)"

definition kmeans_break :: "dtype \<Rightarrow> (box list \<Rightarrow> box) \<Rightarrow> box list \<Rightarrow> int \<Rightarrow> nat list
    \<Rightarrow> (error + box list \<times> nat list) option" where
  "kmeans_break dt dist' boxes k choice =
    (case kmeans_init boxes k choice of
       Inl e \<Rightarrow> Some (Inl e)
     | Inr clusters \<Rightarrow> kmeans_loop dt dist' boxes k clusters (replicate (length boxes) 0))"

definition kmeans :: "dtype \<Rightarrow> (box list \<Rightarrow> box) \<Rightarrow> box list \<Rightarrow> int \<Rightarrow> nat list
    \<Rightarrow> (error + box list) option" where
  "kmeans dt dist' boxes k choice =
    map_option (map_sum (\<lambda>e. e) fst) (kmeans_break dt dist' boxes k choice)"

section \<open>The specification's formulas\<close>

text \<open>A box of the specification is a pair of real numbers, width and height;
  \<open>box_of\<close> is the array row that holds it.\<close>

definition box_of :: "real \<times> real \<Rightarrow> box" where
  "box_of b = (Fin (fst b), Fin (snd b))"




text \<open>The loop of \<open>kmeans\<close> as the specification describes it: the values of
  \<open>clusters\<close> and \<open>last_clusters\<close> at the start of iteration \<open>n\<close> (counting
  from 0), when none of the iterations before it stopped the loop. Each of
  them ran the assignment step and then the update step.\<close>

fun kmeans_iterate :: "dtype \<Rightarrow> (box list \<Rightarrow> box) \<Rightarrow> box list \<Rightarrow> int \<Rightarrow> nat
    \<Rightarrow> box list \<times> nat list \<Rightarrow> error + box list \<times> nat list" where
  "kmeans_iterate dt dist' boxes k 0 s = Inr s"
| "kmeans_iterate dt dist' boxes k (Suc n) s =
    (case assignment_step dt boxes k (fst s) of
       Inl e \<Rightarrow> Inl e
     | Inr nearest_clusters \<Rightarrow>
        kmeans_iterate dt dist' boxes k n
          (update_step dt dist' boxes k nearest_clusters, nearest_clusters))"

text \<open>The specification's concrete scenario.\<close>

definition scenario_boxes :: "box list" where
  "scenario_boxes = [(Fin 100, Fin 100), (Fin 100, Fin 100), (Fin 10, Fin 10), (Fin 10, Fin 10)]"

text \<open>A dataset of three boxes, two of them equal.\<close>

definition dup_boxes :: "box list" where
  "dup_boxes = [(Fin 1, Fin 1), (Fin 1, Fin 1), (Fin 2, Fin 2)]"

section \<open>Properties of the arithmetic\<close>

lemma float64_Fin:
  "1 / 2 ^ 1022 \<le> \<bar>r\<bar> \<Longrightarrow> \<bar>r\<bar> < 2 ^ 1024 - 2 ^ 970 \<Longrightarrow> float64 r = Fin r"
  by (auto simp: float64_def)

lemma float64_zero [simp]: "float64 0 = Fin 0"
  by (simp add: float64_def round_half_even_def)



text \<open>Results between \<open>2^-64\<close> and \<open>2^64\<close> in absolute value are far from the
  limits: this is the rule that evaluates the concrete runs below.\<close>

lemma float64_small:
  assumes "1 / 2 ^ 64 \<le> \<bar>r\<bar>" "\<bar>r\<bar> \<le> 2 ^ 64"
  shows "float64 r = Fin r"
proof (rule float64_Fin)
  have "(1::real) / 2 ^ 1022 < 1 / 2 ^ 64" by simp
  with assms(1) show "1 / 2 ^ 1022 \<le> \<bar>r\<bar>" by linarith
  have "(2::real) ^ 64 < 2 ^ 1024 - 2 ^ 970" by simp
  with assms(2) show "\<bar>r\<bar> < 2 ^ 1024 - 2 ^ 970" by linarith
qed

lemma int64_id: "- (2 ^ 63) \<le> r \<Longrightarrow> r < 2 ^ 63 \<Longrightarrow> int64 r = r"
proof -
  assume r: "- (2 ^ 63) \<le> r" "r < 2 ^ 63"
  have "\<lfloor>(r + 2 ^ 63) / 2 ^ 64\<rfloor> = 0"
  proof (rule floor_unique)
    show "of_int 0 \<le> (r + 2 ^ 63) / 2 ^ 64" using r(1) by simp
    show "(r + 2 ^ 63) / 2 ^ 64 < of_int 0 + 1" using r(2) by simp
  qed
  then show ?thesis by (simp add: int64_def)
qed

lemma int64_small: "\<bar>r\<bar> \<le> 2 ^ 32 \<Longrightarrow> int64 r = r"
proof (rule int64_id)
  assume r: "\<bar>r\<bar> \<le> 2 ^ 32"
  have "(2::real) ^ 32 < 2 ^ 63" by simp
  with r show "- (2 ^ 63) \<le> r" "r < 2 ^ 63" by linarith+
qed

lemma np_minimum_Fin [simp]: "np_minimum (Fin a) (Fin b) = Fin (min a b)"
  by (simp add: np_minimum_def min_def)

lemma np_maximum_Fin [simp]: "np_maximum (Fin a) (Fin b) = Fin (max a b)"
  by (simp add: np_maximum_def max_def)

lemma np_eq_zero [simp]: "np_eq v (Fin 0) \<longleftrightarrow> v = Fin 0"
  by (cases v) (simp_all add: np_eq_def)

section \<open>Properties of the IoU\<close>

lemma count_nonzero_pos:
  "0 < count_nonzero (map (\<lambda>v. v = z) (map f xs)) \<longleftrightarrow> (\<exists>x\<in>set xs. f x = z)"
  by (auto simp: count_nonzero_def filter_empty_conv)

text \<open>The two branches of \<open>iou\<close>, element by element.\<close>

lemma iou_cases:
  "iou dt box clusters =
    (if \<exists>c\<in>set clusters. np_minimum (fst c) (fst box) = Fin 0 \<or> np_minimum (snd c) (snd box) = Fin 0
     then Inl BoxHasNoArea
     else Inr (map (\<lambda>c. fl_divide
                 (np_times dt (np_minimum (fst c) (fst box)) (np_minimum (snd c) (snd box)))
                 (np_minus dt
                    (np_plus dt (np_times dt (fst box) (snd box)) (np_times dt (fst c) (snd c)))
                    (np_times dt (np_minimum (fst c) (fst box)) (np_minimum (snd c) (snd box)))))
               clusters))"
  unfolding iou_def Let_def np_eq_zero count_nonzero_pos
  by (simp add: map2_map_map o_def bex_disj_distrib)

lemma iou_raises_iff:
  "iou dt box clusters = Inl e \<longleftrightarrow>
     e = BoxHasNoArea \<and>
     (\<exists>c\<in>set clusters. np_minimum (fst c) (fst box) = Fin 0 \<or> np_minimum (snd c) (snd box) = Fin 0)"
  unfolding iou_cases by auto











lemma positive_box_of: "positive_box B \<longleftrightarrow> (\<exists>b. B = box_of b \<and> 0 < fst b \<and> 0 < snd b)"
  by (cases B rule: positive_box.cases) (auto simp: box_of_def)




text \<open>
  \<^bold>\<open>C2.\<close> In both dtypes \<open>iou\<close> raises its \<^verbatim>\<open>ValueError\<close> if and only if, for at
  least one reference, the computed intersection width \<^verbatim>\<open>np.minimum(reference
  width, box width)\<close> or the computed intersection height is exactly zero; it
  raises nothing else; on real numbers the computed values are the minima of
  the widths and of the heights; and \<open>iou\<close> of the box (10, 0) with the cluster
  (5, 5) raises.
\<close>

theorem iou_raises_iff_zero_intersection:
  "(iou dt box clusters = Inl BoxHasNoArea \<longleftrightarrow>
      (\<exists>c\<in>set clusters.
         np_minimum (fst c) (fst box) = Fin 0 \<or> np_minimum (snd c) (snd box) = Fin 0)) \<and>
   (\<forall>e. iou dt box clusters = Inl e \<longrightarrow> e = BoxHasNoArea) \<and>
   (iou dt (box_of b) (map box_of R) = Inl BoxHasNoArea \<longleftrightarrow>
      (\<exists>r\<in>set R. min (fst b) (fst r) = 0 \<or> min (snd b) (snd r) = 0)) \<and>
   iou dt (Fin 10, Fin 0) [(Fin 5, Fin 5)] = Inl BoxHasNoArea"
proof -
  have "iou dt (box_of b) (map box_of R) = Inl BoxHasNoArea \<longleftrightarrow>
      (\<exists>r\<in>set R. min (fst b) (fst r) = 0 \<or> min (snd b) (snd r) = 0)"
    by (simp add: iou_raises_iff box_of_def min.commute)
  moreover have "iou dt (Fin 10, Fin 0) [(Fin 5, Fin 5)] = Inl BoxHasNoArea"
    by (simp add: iou_raises_iff)
  ultimately show ?thesis
    by (simp add: iou_raises_iff)
qed

theorem iou_raises_iff_zero_intersection_witness:
  "iou Float64 (box_of (0, 7)) (map box_of [(2, 2), (3, 1)]) = Inl BoxHasNoArea \<and>
   iou Int64 (Fin 2, Fin 3) [(Fin 1, Fin 1), (Fin (- 4), Fin 5)] \<noteq> Inl BoxHasNoArea"
  using iou_raises_iff_zero_intersection[of Float64 "(Fin 2, Fin 3)"
      "[(Fin 1, Fin 1), (Fin (- 4), Fin 5)]" "(0, 7)" "[(2, 2), (3, 1)]"]
    iou_raises_iff_zero_intersection[of Int64 "(Fin 2, Fin 3)"
      "[(Fin 1, Fin 1), (Fin (- 4), Fin 5)]" "(0, 7)" "[(2, 2), (3, 1)]"]
  by simp







section \<open>Properties of the accuracy\<close>











section \<open>The loop stops at the first stable assignment\<close>

text \<open>If the state reached after \<open>n\<close> iterations is the first whose assignment
  step reproduces \<open>last_clusters\<close>, the loop breaks there.\<close>

lemma kmeans_loop_first_stable:
  assumes "kmeans_iterate dt d boxes k n (cl, lc) = Inr (c, a)"
    and "assignment_step dt boxes k c = Inr a"
    and "\<forall>m<n. \<forall>s. kmeans_iterate dt d boxes k m (cl, lc) = Inr s \<longrightarrow>
           assignment_step dt boxes k (fst s) \<noteq> Inr (snd s)"
  shows "kmeans_loop dt d boxes k cl lc = Some (Inr (c, a))"
  using assms
proof (induction n arbitrary: cl lc)
  case 0
  then show ?case by (subst kmeans_loop.simps) simp
next
  case (Suc n)
  from Suc.prems(1) obtain nearest where nearest: "assignment_step dt boxes k cl = Inr nearest"
      "kmeans_iterate dt d boxes k n (update_step dt d boxes k nearest, nearest) = Inr (c, a)"
    by (auto split: sum.splits)
  from Suc.prems(3) have "assignment_step dt boxes k cl \<noteq> Inr lc"
    by (auto dest: spec[of _ 0])
  with nearest(1) have ne: "lc \<noteq> nearest" by auto
  have later: "\<forall>m<n. \<forall>s. kmeans_iterate dt d boxes k m (update_step dt d boxes k nearest, nearest) = Inr s
      \<longrightarrow> assignment_step dt boxes k (fst s) \<noteq> Inr (snd s)"
  proof (intro allI impI)
    fix m s
    assume "m < n" "kmeans_iterate dt d boxes k m (update_step dt d boxes k nearest, nearest) = Inr s"
    then have "Suc m < Suc n" "kmeans_iterate dt d boxes k (Suc m) (cl, lc) = Inr s"
      using nearest(1) by simp_all
    with Suc.prems(3) show "assignment_step dt boxes k (fst s) \<noteq> Inr (snd s)" by blast
  qed
  have "kmeans_loop dt d boxes k (update_step dt d boxes k nearest) nearest = Some (Inr (c, a))"
    by (rule Suc.IH[OF nearest(2) Suc.prems(2) later])
  then show ?case
    using nearest(1) ne by (subst kmeans_loop.simps) simp
qed

text \<open>Conversely, a run that breaks does so at such a state. The induction is
  the one of the loop's definition, on the runs that return.\<close>

lemma kmeans_loop_returns:
  assumes "kmeans_loop dt d boxes k cl lc = Some (Inr (c, a))"
  shows "\<exists>n. kmeans_iterate dt d boxes k n (cl, lc) = Inr (c, a) \<and>
         assignment_step dt boxes k c = Inr a \<and>
         (\<forall>m<n. \<forall>s. kmeans_iterate dt d boxes k m (cl, lc) = Inr s \<longrightarrow>
             assignment_step dt boxes k (fst s) \<noteq> Inr (snd s))"
proof -
  define P :: "dtype \<Rightarrow> (box list \<Rightarrow> box) \<Rightarrow> box list \<Rightarrow> int \<Rightarrow> box list \<Rightarrow> nat list
      \<Rightarrow> error + box list \<times> nat list \<Rightarrow> bool"
    where "P = (\<lambda>dt d boxes k cl lc y. \<forall>c a. y = Inr (c, a) \<longrightarrow>
      (\<exists>n. kmeans_iterate dt d boxes k n (cl, lc) = Inr (c, a) \<and>
         assignment_step dt boxes k c = Inr a \<and>
         (\<forall>m<n. \<forall>s. kmeans_iterate dt d boxes k m (cl, lc) = Inr s \<longrightarrow>
             assignment_step dt boxes k (fst s) \<noteq> Inr (snd s))))"
  have "P dt d boxes k cl lc (Inr (c, a))"
  proof (rule kmeans_loop.raw_induct[where P = P, OF _ assms])
    fix loop dt d boxes k cl lc y
    assume IH: "\<And>dt d boxes k cl lc y. loop dt d boxes k cl lc = Some y \<Longrightarrow> P dt d boxes k cl lc y"
      and body: "(case assignment_step dt boxes k cl of
           Inl e \<Rightarrow> Some (Inl e)
         | Inr nearest_clusters \<Rightarrow>
             if lc = nearest_clusters then Some (Inr (cl, nearest_clusters))
             else loop dt d boxes k (update_step dt d boxes k nearest_clusters) nearest_clusters) = Some y"
    show "P dt d boxes k cl lc y"
      unfolding P_def
    proof (intro allI impI)
      fix c a
      assume y: "y = Inr (c, a)"
      obtain nearest where nearest: "assignment_step dt boxes k cl = Inr nearest"
      proof (cases "assignment_step dt boxes k cl")
        case (Inl e)
        with body y show ?thesis by simp
      next
        case (Inr nearest)
        then show ?thesis by (rule that)
      qed
      show "\<exists>n. kmeans_iterate dt d boxes k n (cl, lc) = Inr (c, a) \<and>
           assignment_step dt boxes k c = Inr a \<and>
           (\<forall>m<n. \<forall>s. kmeans_iterate dt d boxes k m (cl, lc) = Inr s \<longrightarrow>
               assignment_step dt boxes k (fst s) \<noteq> Inr (snd s))"
      proof (cases "lc = nearest")
        case True
        with body y nearest have "c = cl" "a = nearest" by simp_all
        with True nearest have "kmeans_iterate dt d boxes k 0 (cl, lc) = Inr (c, a) \<and>
           assignment_step dt boxes k c = Inr a \<and>
           (\<forall>m<0. \<forall>s. kmeans_iterate dt d boxes k m (cl, lc) = Inr s \<longrightarrow>
               assignment_step dt boxes k (fst s) \<noteq> Inr (snd s))"
          by simp
        then show ?thesis by (rule exI)
      next
        case False
        with body nearest have "loop dt d boxes k (update_step dt d boxes k nearest) nearest = Some y"
          by simp
        from IH[OF this] y obtain n where n:
          "kmeans_iterate dt d boxes k n (update_step dt d boxes k nearest, nearest) = Inr (c, a)"
          "assignment_step dt boxes k c = Inr a"
          "\<forall>m<n. \<forall>s. kmeans_iterate dt d boxes k m (update_step dt d boxes k nearest, nearest) = Inr s \<longrightarrow>
               assignment_step dt boxes k (fst s) \<noteq> Inr (snd s)"
          unfolding P_def by blast
        have "\<forall>m<Suc n. \<forall>s. kmeans_iterate dt d boxes k m (cl, lc) = Inr s \<longrightarrow>
               assignment_step dt boxes k (fst s) \<noteq> Inr (snd s)"
        proof (intro allI impI)
          fix m s
          assume m: "m < Suc n" "kmeans_iterate dt d boxes k m (cl, lc) = Inr s"
          show "assignment_step dt boxes k (fst s) \<noteq> Inr (snd s)"
          proof (cases m)
            case 0
            with m(2) nearest False show ?thesis by auto
          next
            case (Suc m')
            with m nearest n(3) show ?thesis by auto
          qed
        qed
        with n(1,2) nearest have "kmeans_iterate dt d boxes k (Suc n) (cl, lc) = Inr (c, a) \<and>
           assignment_step dt boxes k c = Inr a \<and>
           (\<forall>m<Suc n. \<forall>s. kmeans_iterate dt d boxes k m (cl, lc) = Inr s \<longrightarrow>
               assignment_step dt boxes k (fst s) \<noteq> Inr (snd s))"
          by simp
        then show ?thesis by (rule exI)
      qed
    qed
  qed
  then show ?thesis by (simp add: P_def)
qed

lemma kmeans_init_ok:
  "0 \<le> k \<Longrightarrow> k \<le> int (length boxes) \<Longrightarrow>
    kmeans_init boxes k choice = Inr (map (\<lambda>i. boxes ! i) choice)"
  by (auto simp: kmeans_init_def Let_def)

subsection \<open>The steps of the concrete scenario\<close>

text \<open>The numbers of the scenario are far from the limits of both dtypes.\<close>

lemmas small_arith = float64_small int64_small fl_minus_def

lemma update_step_2:
  "update_step dt d boxes 2 n =
    [map_prod (astype dt) (astype dt) (d (members boxes n 0)),
     map_prod (astype dt) (astype dt) (d (members boxes n 1))]"
proof -
  have "[0..<nat 2] = [0, 1]" by (simp add: upt_rec)
  then show ?thesis by (simp add: update_step_def)
qed

lemma median_column_pair:
  assumes "1 \<le> x" "x \<le> 2 ^ 32"
  shows "median_column [Fin x, Fin x] = Fin x"
proof -
  have "(2::real) ^ 32 \<le> 2 ^ 64" "(1::real) / 2 ^ 64 \<le> 1" "2 * (2::real) ^ 32 \<le> 2 ^ 64"
    by simp_all
  with assms have "float64 x = Fin x" "float64 (x + x) = Fin (x + x)"
    by (auto intro!: float64_small)
  then show ?thesis
    by (simp add: median_column_def fl_sort_def np_mean_def)
qed

lemma np_median_pair:
  "1 \<le> x \<Longrightarrow> x \<le> 2 ^ 32 \<Longrightarrow> 1 \<le> y \<Longrightarrow> y \<le> 2 ^ 32 \<Longrightarrow>
    np_median [(Fin x, Fin y), (Fin x, Fin y)] = (Fin x, Fin y)"
  by (simp add: np_median_def median_column_pair)

lemma astype_small_int [simp]: "astype dt (Fin 100) = Fin 100" "astype dt (Fin 10) = Fin 10"
  by (cases dt; simp)+

lemma scenario_assignment_AB:
  "assignment_step dt scenario_boxes 2 [(Fin 100, Fin 100), (Fin 10, Fin 10)] = Inr [0, 0, 1, 1]"
  by (cases dt; simp add: assignment_step_def iou_cases scenario_boxes_def fl_ge_def small_arith)

lemma scenario_assignment_BA:
  "assignment_step dt scenario_boxes 2 [(Fin 10, Fin 10), (Fin 100, Fin 100)] = Inr [1, 1, 0, 0]"
  by (cases dt; simp add: assignment_step_def iou_cases scenario_boxes_def fl_ge_def small_arith)

lemma scenario_assignment_AA:
  "assignment_step dt scenario_boxes 2 [(Fin 100, Fin 100), (Fin 100, Fin 100)] = Inr [0, 0, 0, 0]"
  by (cases dt; simp add: assignment_step_def iou_cases scenario_boxes_def fl_ge_def small_arith)

lemma scenario_assignment_BB:
  "assignment_step dt scenario_boxes 2 [(Fin 10, Fin 10), (Fin 10, Fin 10)] = Inr [0, 0, 0, 0]"
  by (cases dt; simp add: assignment_step_def iou_cases scenario_boxes_def fl_ge_def small_arith)

lemma scenario_update_AB:
  "update_step dt np_median scenario_boxes 2 [0, 0, Suc 0, Suc 0]
     = [(Fin 100, Fin 100), (Fin 10, Fin 10)]"
  by (simp add: update_step_2 scenario_boxes_def members_def np_median_pair)

lemma scenario_update_BA:
  "update_step dt np_median scenario_boxes 2 [Suc 0, Suc 0, 0, 0]
     = [(Fin 10, Fin 10), (Fin 100, Fin 100)]"
  by (simp add: update_step_2 scenario_boxes_def members_def np_median_pair)

lemma scenario_zeros: "replicate (length scenario_boxes) 0 = [0, 0, 0, 0]"
  by (simp add: scenario_boxes_def numeral_eq_Suc)

lemma scenario_loop_AB:
  "kmeans_loop dt np_median scenario_boxes 2 [(Fin 100, Fin 100), (Fin 10, Fin 10)] [0, 0, 0, 0]
     = Some (Inr ([(Fin 100, Fin 100), (Fin 10, Fin 10)], [0, 0, 1, 1]))"
  apply (subst kmeans_loop.simps)
  apply (simp add: scenario_assignment_AB scenario_update_AB)
  apply (subst kmeans_loop.simps)
  apply (simp add: scenario_assignment_AB)
  done

lemma scenario_loop_BA:
  "kmeans_loop dt np_median scenario_boxes 2 [(Fin 10, Fin 10), (Fin 100, Fin 100)] [0, 0, 0, 0]
     = Some (Inr ([(Fin 10, Fin 10), (Fin 100, Fin 100)], [1, 1, 0, 0]))"
  apply (subst kmeans_loop.simps)
  apply (simp add: scenario_assignment_BA scenario_update_BA)
  apply (subst kmeans_loop.simps)
  apply (simp add: scenario_assignment_BA)
  done

lemma scenario_loop_AA:
  "kmeans_loop dt np_median scenario_boxes 2 [(Fin 100, Fin 100), (Fin 100, Fin 100)] [0, 0, 0, 0]
     = Some (Inr ([(Fin 100, Fin 100), (Fin 100, Fin 100)], [0, 0, 0, 0]))"
  by (subst kmeans_loop.simps) (simp add: scenario_assignment_AA)

lemma scenario_loop_BB:
  "kmeans_loop dt np_median scenario_boxes 2 [(Fin 10, Fin 10), (Fin 10, Fin 10)] [0, 0, 0, 0]
     = Some (Inr ([(Fin 10, Fin 10), (Fin 10, Fin 10)], [0, 0, 0, 0]))"
  by (subst kmeans_loop.simps) (simp add: scenario_assignment_BB)

lemma scenario_nth:
  assumes "i < 4"
  shows "scenario_boxes ! i = (Fin 100, Fin 100) \<or> scenario_boxes ! i = (Fin 10, Fin 10)"
proof -
  from assms have "i = 0 \<or> i = 1 \<or> i = 2 \<or> i = 3" by arith
  then show ?thesis by (auto simp: scenario_boxes_def)
qed

lemma random_choice_2:
  assumes "random_choice rows 2 choice"
  shows "choice = [choice ! 0, choice ! 1] \<and> choice ! 0 < rows \<and> choice ! 1 < rows \<and>
         choice ! 0 \<noteq> choice ! 1"
proof -
  from assms have "length choice = 2" by (simp add: random_choice_def)
  then obtain i j where "choice = [i, j]"
    by (auto simp: length_Suc_conv numeral_2_eq_2)
  with assms show ?thesis by (simp add: random_choice_def)
qed

lemma scenario_avg_iou_AB:
  "avg_iou dt scenario_boxes [(Fin 100, Fin 100), (Fin 10, Fin 10)] = Inr (Fin 1)"
  by (cases dt; simp add: avg_iou_def iou_cases np_max_def np_mean_def scenario_boxes_def small_arith)

lemma scenario_avg_iou_BA:
  "avg_iou dt scenario_boxes [(Fin 10, Fin 10), (Fin 100, Fin 100)] = Inr (Fin 1)"
  by (cases dt; simp add: avg_iou_def iou_cases np_max_def np_mean_def scenario_boxes_def small_arith)

lemma scenario_avg_iou_AA:
  "avg_iou dt scenario_boxes [(Fin 100, Fin 100), (Fin 100, Fin 100)] = Inr (Fin (101 / 200))"
  by (cases dt; simp add: avg_iou_def iou_cases np_max_def np_mean_def scenario_boxes_def small_arith)

lemma scenario_kmeans_break:
  assumes "random_choice (length scenario_boxes) 2 choice"
  shows "kmeans_break dt np_median scenario_boxes 2 choice =
     kmeans_loop dt np_median scenario_boxes 2
       [scenario_boxes ! (choice ! 0), scenario_boxes ! (choice ! 1)] [0, 0, 0, 0]"
proof -
  have "choice = [choice ! 0, choice ! 1]"
    using random_choice_2[OF assms] by simp
  then have "map (\<lambda>i. scenario_boxes ! i) choice
      = [scenario_boxes ! (choice ! 0), scenario_boxes ! (choice ! 1)]"
    by (metis list.simps(8,9))
  moreover have "kmeans_init scenario_boxes 2 choice = Inr (map (\<lambda>i. scenario_boxes ! i) choice)"
    by (rule kmeans_init_ok) (simp_all add: scenario_boxes_def)
  ultimately show ?thesis
    by (simp add: kmeans_break_def scenario_zeros)
qed

subsection \<open>The convergence check\<close>

text \<open>The state after one more iteration, by its last step: \<open>last_clusters\<close> is
  the assignment that the iteration before computed, and \<open>clusters\<close> is the
  update for it.\<close>

lemma kmeans_iterate_Suc:
  "kmeans_iterate dt d boxes k (Suc n) s =
    (case kmeans_iterate dt d boxes k n s of
       Inl e \<Rightarrow> Inl e
     | Inr s' \<Rightarrow>
        (case assignment_step dt boxes k (fst s') of
           Inl e \<Rightarrow> Inl e
         | Inr nearest \<Rightarrow> Inr (update_step dt d boxes k nearest, nearest)))"
proof (induction n arbitrary: s)
  case 0
  then show ?case by (simp split: sum.splits)
next
  case (Suc n)
  show ?case
  proof (cases "assignment_step dt boxes k (fst s)")
    case (Inl e)
    then show ?thesis by simp
  next
    case (Inr nearest)
    have "kmeans_iterate dt d boxes k (Suc (Suc n)) s
        = kmeans_iterate dt d boxes k (Suc n) (update_step dt d boxes k nearest, nearest)"
      using Inr by simp
    also have "\<dots> = (case kmeans_iterate dt d boxes k n (update_step dt d boxes k nearest, nearest) of
         Inl e \<Rightarrow> Inl e
       | Inr s' \<Rightarrow>
          (case assignment_step dt boxes k (fst s') of
             Inl e \<Rightarrow> Inl e
           | Inr nearest \<Rightarrow> Inr (update_step dt d boxes k nearest, nearest)))"
      by (rule Suc.IH)
    also have "kmeans_iterate dt d boxes k n (update_step dt d boxes k nearest, nearest)
        = kmeans_iterate dt d boxes k (Suc n) s"
      using Inr by simp
    finally show ?thesis .
  qed
qed

text \<open>
  \<^bold>\<open>C4.\<close> A run of \<open>kmeans\<close> breaks out of its loop with the clusters \<open>c\<close>
  and the assignment \<open>a\<close> exactly when the initialisation succeeded and, for
  some \<open>n\<close>, the state at the start of iteration \<open>n\<close> is \<open>(c, a)\<close>, the
  assignment step on \<open>c\<close> produces \<open>a\<close> again (the new assignment is identical
  to the previous one), and no earlier iteration had this property. The
  previous assignment of iteration 0 is all zeros. In particular a complete
  assignment step has run before the loop stops.
\<close>

theorem kmeans_breaks_at_first_stable_assignment:
  "kmeans_break dt dist' boxes k choice = Some (Inr (c, a)) \<longleftrightarrow>
    (\<exists>clusters n.
       kmeans_init boxes k choice = Inr clusters \<and>
       kmeans_iterate dt dist' boxes k n (clusters, replicate (length boxes) 0) = Inr (c, a) \<and>
       assignment_step dt boxes k c = Inr a \<and>
       (\<forall>m<n. \<forall>s. kmeans_iterate dt dist' boxes k m (clusters, replicate (length boxes) 0) = Inr s \<longrightarrow>
          assignment_step dt boxes k (fst s) \<noteq> Inr (snd s)))"
proof (cases "kmeans_init boxes k choice")
  case (Inl e)
  then show ?thesis by (simp add: kmeans_break_def)
next
  case (Inr clusters)
  have "kmeans_loop dt dist' boxes k clusters (replicate (length boxes) 0) = Some (Inr (c, a)) \<longleftrightarrow>
    (\<exists>n. kmeans_iterate dt dist' boxes k n (clusters, replicate (length boxes) 0) = Inr (c, a) \<and>
       assignment_step dt boxes k c = Inr a \<and>
       (\<forall>m<n. \<forall>s. kmeans_iterate dt dist' boxes k m (clusters, replicate (length boxes) 0) = Inr s \<longrightarrow>
          assignment_step dt boxes k (fst s) \<noteq> Inr (snd s)))"
    using kmeans_loop_returns kmeans_loop_first_stable by blast
  with Inr show ?thesis by (simp add: kmeans_break_def)
qed

theorem kmeans_breaks_at_first_stable_assignment_witness:
  "kmeans_break Float64 np_median scenario_boxes 2 [0, 2]
     = Some (Inr ([(Fin 100, Fin 100), (Fin 10, Fin 10)], [0, 0, 1, 1]))"
proof -
  have init: "kmeans_init scenario_boxes 2 [0, 2] = Inr [(Fin 100, Fin 100), (Fin 10, Fin 10)]"
    by (simp add: kmeans_init_def scenario_boxes_def)
  have "kmeans_iterate Float64 np_median scenario_boxes 2 1
      ([(Fin 100, Fin 100), (Fin 10, Fin 10)], replicate (length scenario_boxes) 0)
        = Inr ([(Fin 100, Fin 100), (Fin 10, Fin 10)], [0, 0, 1, 1])"
    by (simp add: scenario_assignment_AB scenario_update_AB)
  moreover have "\<forall>m<1. \<forall>s. kmeans_iterate Float64 np_median scenario_boxes 2 m
      ([(Fin 100, Fin 100), (Fin 10, Fin 10)], replicate (length scenario_boxes) 0) = Inr s \<longrightarrow>
          assignment_step Float64 scenario_boxes 2 (fst s) \<noteq> Inr (snd s)"
    by (auto simp: scenario_assignment_AB scenario_zeros)
  ultimately show ?thesis
    using init scenario_assignment_AB[of Float64]
      kmeans_breaks_at_first_stable_assignment[of Float64 np_median scenario_boxes 2 "[0, 2]"
        "[(Fin 100, Fin 100), (Fin 10, Fin 10)]" "[0, 0, 1, 1]"]
    by blast
qed

text \<open>
  \<^bold>\<open>C8.\<close> When \<open>kmeans\<close> returns the clusters \<open>c\<close>, its loop broke at the start
  of some iteration \<open>n\<close> whose state is \<open>(c, a)\<close>: \<open>a\<close> is the previous
  assignment, the one whose stability stopped the loop. It is all zeros, with
  \<open>c\<close> the initial clusters, when \<open>n\<close> is 0; otherwise it is the assignment that
  iteration \<open>n - 1\<close> computed from its clusters, and \<open>c\<close> is the update for it.
  Running the assignment step again on the input boxes and the returned \<open>c\<close>
  gives exactly \<open>a\<close>.
\<close>

theorem kmeans_assignment_reproduced:
  assumes "kmeans dt dist' boxes k choice = Some (Inr c)"
  shows "\<exists>a clusters n.
    kmeans_break dt dist' boxes k choice = Some (Inr (c, a)) \<and>
    kmeans_init boxes k choice = Inr clusters \<and>
    kmeans_iterate dt dist' boxes k n (clusters, replicate (length boxes) 0) = Inr (c, a) \<and>
    (n = 0 \<and> c = clusters \<and> a = replicate (length boxes) 0 \<or>
     (\<exists>m c' a'. n = Suc m \<and>
        kmeans_iterate dt dist' boxes k m (clusters, replicate (length boxes) 0) = Inr (c', a') \<and>
        assignment_step dt boxes k c' = Inr a \<and> a' \<noteq> a \<and>
        c = update_step dt dist' boxes k a)) \<and>
    assignment_step dt boxes k c = Inr a"
proof -
  let ?z = "replicate (length boxes) 0"
  from assms obtain a where brk: "kmeans_break dt dist' boxes k choice = Some (Inr (c, a))"
    by (cases "kmeans_break dt dist' boxes k choice")
       (auto simp: kmeans_def map_sum_def split: sum.splits)
  then obtain clusters where init: "kmeans_init boxes k choice = Inr clusters"
    and loop: "kmeans_loop dt dist' boxes k clusters ?z = Some (Inr (c, a))"
    by (cases "kmeans_init boxes k choice") (auto simp: kmeans_break_def)
  from kmeans_loop_returns[OF loop] obtain n where n:
    "kmeans_iterate dt dist' boxes k n (clusters, ?z) = Inr (c, a)"
    "assignment_step dt boxes k c = Inr a"
    "\<forall>m<n. \<forall>s. kmeans_iterate dt dist' boxes k m (clusters, ?z) = Inr s \<longrightarrow>
        assignment_step dt boxes k (fst s) \<noteq> Inr (snd s)"
    by blast
  have prev: "n = 0 \<and> c = clusters \<and> a = ?z \<or>
     (\<exists>m c' a'. n = Suc m \<and>
        kmeans_iterate dt dist' boxes k m (clusters, ?z) = Inr (c', a') \<and>
        assignment_step dt boxes k c' = Inr a \<and> a' \<noteq> a \<and>
        c = update_step dt dist' boxes k a)"
  proof (cases n)
    case 0
    with n(1) show ?thesis by simp
  next
    case (Suc m)
    with n(1) have "kmeans_iterate dt dist' boxes k (Suc m) (clusters, ?z) = Inr (c, a)"
      by simp
    then have "(case kmeans_iterate dt dist' boxes k m (clusters, ?z) of
         Inl e \<Rightarrow> Inl e
       | Inr s' \<Rightarrow>
          (case assignment_step dt boxes k (fst s') of
             Inl e \<Rightarrow> Inl e
           | Inr nearest \<Rightarrow> Inr (update_step dt dist' boxes k nearest, nearest))) = Inr (c, a)"
      by (simp only: kmeans_iterate_Suc)
    then obtain c' a' where m: "kmeans_iterate dt dist' boxes k m (clusters, ?z) = Inr (c', a')"
      and step: "assignment_step dt boxes k c' = Inr a" "c = update_step dt dist' boxes k a"
      by (auto split: sum.splits)
    from n(3) Suc m have "assignment_step dt boxes k c' \<noteq> Inr a'" by auto
    with step(1) have "a' \<noteq> a" by auto
    with Suc m step show ?thesis by blast
  qed
  from brk init n(1) prev n(2) show ?thesis by blast
qed

theorem kmeans_assignment_reproduced_witness:
  "\<exists>a clusters n.
     kmeans_break Int64 np_median scenario_boxes 2 [2, 1]
       = Some (Inr ([(Fin 10, Fin 10), (Fin 100, Fin 100)], a)) \<and>
     kmeans_init scenario_boxes 2 [2, 1] = Inr clusters \<and>
     kmeans_iterate Int64 np_median scenario_boxes 2 n (clusters, replicate (length scenario_boxes) 0)
       = Inr ([(Fin 10, Fin 10), (Fin 100, Fin 100)], a) \<and>
     assignment_step Int64 scenario_boxes 2 [(Fin 10, Fin 10), (Fin 100, Fin 100)] = Inr a"
proof -
  have rc: "random_choice (length scenario_boxes) 2 [2, 1]"
    by (simp add: random_choice_def scenario_boxes_def)
  have nth: "scenario_boxes ! ([2, 1] ! 0) = (Fin 10, Fin 10)"
    "scenario_boxes ! ([2, 1] ! 1) = (Fin 100, Fin 100)"
    by (simp_all add: scenario_boxes_def)
  have "kmeans_break Int64 np_median scenario_boxes 2 [2, 1]
      = Some (Inr ([(Fin 10, Fin 10), (Fin 100, Fin 100)], [1, 1, 0, 0]))"
    unfolding scenario_kmeans_break[OF rc] nth by (rule scenario_loop_BA)
  then have "kmeans Int64 np_median scenario_boxes 2 [2, 1]
      = Some (Inr [(Fin 10, Fin 10), (Fin 100, Fin 100)])"
    by (simp add: kmeans_def)
  from kmeans_assignment_reproduced[OF this] show ?thesis by blast
qed

section \<open>One cluster\<close>

lemma random_choice_1: "random_choice rows 1 choice \<longleftrightarrow> (\<exists>i. choice = [i] \<and> i < rows)"
  by (cases choice) (auto simp: random_choice_def)

text \<open>With positive sides the check of \<open>iou\<close> passes, whatever the arithmetic
  gives afterwards; and the \<^verbatim>\<open>argmin\<close> of a row of one element is 0, be it
  \<^verbatim>\<open>nan\<close>.\<close>

lemma iou_single:
  assumes "positive_box B" "positive_box c"
  shows "\<exists>v. iou dt B [c] = Inr [v]"
proof -
  from assms obtain b r where "B = box_of b" "0 < fst b" "0 < snd b"
      "c = box_of r" "0 < fst r" "0 < snd r"
    by (auto simp: positive_box_of)
  then show ?thesis
    by (simp add: iou_cases box_of_def min_def)
qed

lemma distance_rows_single:
  assumes "positive_box c" "list_all positive_box boxes"
  shows "\<exists>ds. distance_rows dt boxes [c] = Inr ds \<and> map np_argmin ds = replicate (length boxes) 0"
  using assms(2)
proof (induction boxes)
  case Nil
  then show ?case by simp
next
  case (Cons B boxes)
  from Cons obtain ds where ds: "distance_rows dt boxes [c] = Inr ds"
      "map np_argmin ds = replicate (length boxes) 0"
    by auto
  from Cons.prems assms(1) obtain v where "iou dt B [c] = Inr [v]"
    using iou_single[of B c dt] by auto
  with ds have "distance_rows dt (B # boxes) [c] = Inr ([fl_minus (Fin 1) v] # ds) \<and>
      map np_argmin ([fl_minus (Fin 1) v] # ds) = replicate (length (B # boxes)) 0"
    by simp
  then show ?case by (rule exI)
qed

lemma assignment_step_single:
  assumes "positive_box c" "list_all positive_box boxes"
  shows "assignment_step dt boxes 1 [c] = Inr (replicate (length boxes) 0)"
  using distance_rows_single[OF assms, of dt] by (auto simp: assignment_step_def)

text \<open>
  \<^bold>\<open>C10.\<close> For a non-empty dataset of boxes with positive sides and \<open>k = 1\<close>,
  whatever the aggregator \<open>dist'\<close>: the sample is one index \<open>i\<close>, the first
  assignment step assigns every box to cluster 0, which is the initial
  \<open>last_clusters\<close>, so the loop breaks in its first iteration, before any
  update step, and \<open>kmeans\<close> returns the sampled box \<open>boxes[i]\<close> alone.
\<close>

theorem kmeans_one_cluster_returns_sample:
  assumes "boxes \<noteq> []" "list_all positive_box boxes" "random_choice (length boxes) 1 choice"
  shows "\<exists>i. choice = [i] \<and> i < length boxes \<and>
    assignment_step dt boxes 1 [boxes ! i] = Inr (replicate (length boxes) 0) \<and>
    kmeans_break dt dist' boxes 1 choice = Some (Inr ([boxes ! i], replicate (length boxes) 0)) \<and>
    kmeans dt dist' boxes 1 choice = Some (Inr [boxes ! i])"
proof -
  from assms(3) obtain i where i: "choice = [i]" "i < length boxes"
    by (auto simp: random_choice_1)
  then have "positive_box (boxes ! i)"
    using assms(2) by (simp add: list_all_length)
  then have asg: "assignment_step dt boxes 1 [boxes ! i] = Inr (replicate (length boxes) 0)"
    using assms(2) by (rule assignment_step_single)
  have init: "kmeans_init boxes 1 choice = Inr [boxes ! i]"
    using kmeans_init_ok[of 1 boxes choice] i by simp
  have "kmeans_loop dt dist' boxes 1 [boxes ! i] (replicate (length boxes) 0)
      = Some (Inr ([boxes ! i], replicate (length boxes) 0))"
    by (subst kmeans_loop.simps) (simp add: asg)
  with init have brk: "kmeans_break dt dist' boxes 1 choice
      = Some (Inr ([boxes ! i], replicate (length boxes) 0))"
    by (simp add: kmeans_break_def)
  then have "kmeans dt dist' boxes 1 choice = Some (Inr [boxes ! i])"
    by (simp add: kmeans_def)
  with i asg brk show ?thesis by blast
qed

theorem kmeans_one_cluster_returns_sample_witness:
  "kmeans Float64 (\<lambda>a. (NaN, NaN)) [(Fin 3, Fin 4), (Fin 6, Fin 2), (Fin 1, Fin 1)] 1 [1] = Some (Inr [(Fin 6, Fin 2)])"
  using kmeans_one_cluster_returns_sample[of "[(Fin 3, Fin 4), (Fin 6, Fin 2), (Fin 1, Fin 1)]" "[1]"
      Float64 "\<lambda>a. (NaN, NaN)"]
  by (simp add: random_choice_def)

section \<open>Invalid configurations\<close>

lemma distance_rows_no_clusters: "distance_rows dt boxes [] = Inr (map (\<lambda>b. []) boxes)"
  by (induction boxes) (simp_all add: iou_cases)

lemma kmeans_loop_k0: "kmeans_loop dt d boxes 0 [] lc = Some (Inl EmptyArgmin)"
  by (subst kmeans_loop.simps) (simp add: assignment_step_def distance_rows_no_clusters)

text \<open>The loop raises nothing but the error of \<open>iou\<close> and, when \<open>k\<close> is 0,
  the error of \<^verbatim>\<open>np.argmin\<close>.\<close>

lemma distance_rows_errors: "distance_rows dt boxes clusters = Inl e \<Longrightarrow> e = BoxHasNoArea"
  by (induction boxes) (auto simp: iou_raises_iff split: sum.splits)

lemma assignment_step_errors:
  "assignment_step dt boxes k clusters = Inl e \<Longrightarrow> e = BoxHasNoArea \<or> (k = 0 \<and> e = EmptyArgmin)"
  by (auto simp: assignment_step_def dest: distance_rows_errors split: sum.splits if_splits)

lemma kmeans_loop_errors:
  assumes "kmeans_loop dt d boxes k cl lc = Some (Inl e)"
  shows "e = BoxHasNoArea \<or> (k = 0 \<and> e = EmptyArgmin)"
proof -
  define P :: "dtype \<Rightarrow> (box list \<Rightarrow> box) \<Rightarrow> box list \<Rightarrow> int \<Rightarrow> box list \<Rightarrow> nat list
      \<Rightarrow> error + box list \<times> nat list \<Rightarrow> bool"
    where "P = (\<lambda>dt d boxes k cl lc y. \<forall>e. y = Inl e \<longrightarrow> e = BoxHasNoArea \<or> (k = 0 \<and> e = EmptyArgmin))"
  have "P dt d boxes k cl lc (Inl e)"
  proof (rule kmeans_loop.raw_induct[where P = P, OF _ assms])
    fix loop dt d boxes k cl lc y
    assume IH: "\<And>dt d boxes k cl lc y. loop dt d boxes k cl lc = Some y \<Longrightarrow> P dt d boxes k cl lc y"
      and body: "(case assignment_step dt boxes k cl of
           Inl e \<Rightarrow> Some (Inl e)
         | Inr nearest_clusters \<Rightarrow>
             if lc = nearest_clusters then Some (Inr (cl, nearest_clusters))
             else loop dt d boxes k (update_step dt d boxes k nearest_clusters) nearest_clusters) = Some y"
    show "P dt d boxes k cl lc y"
    proof (cases "assignment_step dt boxes k cl")
      case (Inl e')
      with body have "y = Inl e'" by simp
      with assignment_step_errors[OF Inl] show ?thesis by (simp add: P_def)
    next
      case (Inr nearest)
      show ?thesis
      proof (cases "lc = nearest")
        case True
        with body Inr show ?thesis by (auto simp: P_def)
      next
        case False
        with body Inr have "loop dt d boxes k (update_step dt d boxes k nearest) nearest = Some y"
          by simp
        from IH[OF this] show ?thesis by (simp add: P_def)
      qed
    qed
  qed
  then show ?thesis by (simp add: P_def)
qed

text \<open>
  \<^bold>\<open>C3\<close>, as the code has it. \<open>kmeans\<close> checks nothing itself. When \<open>k\<close> is
  negative or greater than the number of boxes (so also for an empty dataset
  with \<open>k \<ge> 1\<close>), a numpy call of the initialisation raises, before the loop
  begins. When \<open>k\<close> is 0 the call fails as well, but for a non-empty dataset
  the initialisation raises nothing and returns no cluster: the error is the
  one of \<^verbatim>\<open>np.argmin\<close>, in the assignment step of the first iteration. When
  \<open>k\<close> is the number of boxes and at least 1, the initialisation raises nothing,
  and the only error the run can raise later is the one of \<open>iou\<close>.
\<close>

theorem kmeans_configuration_errors:
  "(k < 0 \<or> int (length boxes) < k \<longrightarrow>
      (\<exists>e. kmeans_init boxes k choice = Inl e \<and> kmeans dt dist' boxes k choice = Some (Inl e))) \<and>
   (k = 0 \<and> random_choice (length boxes) k choice \<longrightarrow>
      (\<exists>e. kmeans dt dist' boxes k choice = Some (Inl e))) \<and>
   (k = 0 \<and> boxes \<noteq> [] \<and> random_choice (length boxes) k choice \<longrightarrow>
      kmeans_init boxes k choice = Inr [] \<and>
      assignment_step dt boxes k [] = Inl EmptyArgmin \<and>
      kmeans dt dist' boxes k choice = Some (Inl EmptyArgmin)) \<and>
   (1 \<le> k \<and> k = int (length boxes) \<longrightarrow>
      kmeans_init boxes k choice = Inr (map (\<lambda>i. boxes ! i) choice) \<and>
      (\<forall>e. kmeans dt dist' boxes k choice = Some (Inl e) \<longrightarrow> e = BoxHasNoArea))"
proof -
  have zero: "kmeans_init boxes k choice = Inr [] \<and>
      assignment_step dt boxes k [] = Inl EmptyArgmin \<and>
      kmeans dt dist' boxes k choice = Some (Inl EmptyArgmin)"
    if k0: "k = 0" "random_choice (length boxes) k choice"
  proof -
    from k0 have "choice = []"
      by (auto simp: random_choice_def)
    with k0 have init: "kmeans_init boxes k choice = Inr []"
      using kmeans_init_ok[of k boxes choice] by simp
    moreover have "assignment_step dt boxes k [] = Inl EmptyArgmin"
      using k0 by (simp add: assignment_step_def distance_rows_no_clusters)
    moreover have "kmeans dt dist' boxes k choice = Some (Inl EmptyArgmin)"
      using k0 init by (simp add: kmeans_def kmeans_break_def kmeans_loop_k0)
    ultimately show ?thesis by simp
  qed
  have early: "\<exists>e. kmeans_init boxes k choice = Inl e \<and> kmeans dt dist' boxes k choice = Some (Inl e)"
    if "k < 0 \<or> int (length boxes) < k"
  proof -
    from that have "\<exists>e. kmeans_init boxes k choice = Inl e"
      by (auto simp: kmeans_init_def Let_def)
    then obtain e where "kmeans_init boxes k choice = Inl e" ..
    then have "kmeans_init boxes k choice = Inl e \<and> kmeans dt dist' boxes k choice = Some (Inl e)"
      by (simp add: kmeans_def kmeans_break_def)
    then show ?thesis by (rule exI)
  qed
  have full: "kmeans_init boxes k choice = Inr (map (\<lambda>i. boxes ! i) choice) \<and>
      (\<forall>e. kmeans dt dist' boxes k choice = Some (Inl e) \<longrightarrow> e = BoxHasNoArea)"
    if k: "1 \<le> k \<and> k = int (length boxes)"
  proof -
    from k have init: "kmeans_init boxes k choice = Inr (map (\<lambda>i. boxes ! i) choice)"
      using kmeans_init_ok[of k boxes choice] by simp
    have "e = BoxHasNoArea" if e: "kmeans dt dist' boxes k choice = Some (Inl e)" for e
    proof -
      from e have "kmeans_break dt dist' boxes k choice = Some (Inl e)"
        by (cases "kmeans_break dt dist' boxes k choice")
           (auto simp: kmeans_def map_sum_def split: sum.splits)
      with init have "kmeans_loop dt dist' boxes k (map (\<lambda>i. boxes ! i) choice)
          (replicate (length boxes) 0) = Some (Inl e)"
        by (simp add: kmeans_break_def)
      from kmeans_loop_errors[OF this] k show ?thesis by auto
    qed
    with init show ?thesis by blast
  qed
  from zero early full show ?thesis by blast
qed

theorem kmeans_configuration_errors_witness:
  "kmeans Float64 np_median scenario_boxes (- 1) [] = Some (Inl NegativeDimensions) \<and>
   kmeans Float64 np_median scenario_boxes 5 [] = Some (Inl SampleLargerThanPopulation) \<and>
   kmeans Int64 np_median [] 1 [] = Some (Inl EmptyPopulation) \<and>
   kmeans Int64 np_median scenario_boxes 0 [] = Some (Inl EmptyArgmin) \<and>
   kmeans_init scenario_boxes 4 [2, 0, 3, 1]
     = Inr [(Fin 10, Fin 10), (Fin 100, Fin 100), (Fin 10, Fin 10), (Fin 100, Fin 100)]"
  using kmeans_configuration_errors[where k = "- 1" and boxes = scenario_boxes and choice = "[]"
      and dt = Float64 and dist' = np_median]
    kmeans_configuration_errors[where k = 5 and boxes = scenario_boxes and choice = "[]"
      and dt = Float64 and dist' = np_median]
    kmeans_configuration_errors[where k = 1 and boxes = "[]" and choice = "[]"
      and dt = Int64 and dist' = np_median]
    kmeans_configuration_errors[where k = 0 and boxes = scenario_boxes and choice = "[]"
      and dt = Int64 and dist' = np_median]
    kmeans_configuration_errors[where k = 4 and boxes = scenario_boxes and choice = "[2, 0, 3, 1]"
      and dt = Float64 and dist' = np_median]
  by (simp add: kmeans_init_def random_choice_def scenario_boxes_def)

text \<open>With \<open>k = 0\<close> and a dataset of one box the initialisation succeeds: the
  failure is not before the first iteration.\<close>

theorem kmeans_zero_clusters_counterexample:
  "kmeans_init [(Fin 1, Fin 1)] 0 [] = Inr [] \<and>
   kmeans_break Float64 np_median [(Fin 1, Fin 1)] 0 [] = Some (Inl EmptyArgmin)"
  by (simp add: kmeans_init_def kmeans_break_def kmeans_loop_k0)

section \<open>A run that never returns\<close>

text \<open>
  A cluster of a \<^verbatim>\<open>float64\<close> array that no box is assigned to becomes
  \<^verbatim>\<open>[nan, nan]\<close>, the median of an empty slice, and \<^verbatim>\<open>np.argmin\<close> then assigns
  every box to the first such cluster. On the three boxes (1,1), (1,1), (2,2)
  with \<open>k = 3\<close> and the sample 2, 0, 1, the second and the third cluster are
  equal at the start, the third one gets no box, and from the fourth iteration
  on the assignment alternates between all zeros and all ones: the loop never
  breaks.
\<close>

lemma update_step_3:
  "update_step Float64 d boxes 3 n = [d (members boxes n 0), d (members boxes n 1), d (members boxes n 2)]"
proof -
  have "[0..<nat 3] = [0, 1, 2]" by (simp add: upt_rec)
  moreover have "map_prod (astype Float64) (astype Float64) p = p" for p :: box
    by (cases p) simp
  ultimately show ?thesis by (simp add: update_step_def)
qed

lemma np_median_empty: "np_median [] = (NaN, NaN)"
  by (simp add: np_median_def median_column_def np_mean_def fl_inf_def)

lemma np_median_dup: "np_median dup_boxes = (Fin 1, Fin 1)"
  by (simp add: dup_boxes_def np_median_def median_column_def np_mean_def fl_sort_def float64_small)

lemma np_median_two: "np_median [(Fin 2, Fin 2)] = (Fin 2, Fin 2)"
  by (simp add: np_median_def median_column_def np_mean_def fl_sort_def float64_small)

lemma dup_assignment_0:
  "assignment_step Float64 dup_boxes 3 [(Fin 2, Fin 2), (Fin 1, Fin 1), (Fin 1, Fin 1)]
     = Inr [Suc 0, Suc 0, 0]"
  by (simp add: dup_boxes_def assignment_step_def iou_cases fl_ge_def np_minimum_def small_arith)

lemma dup_update_0:
  "update_step Float64 np_median dup_boxes 3 [Suc 0, Suc 0, 0]
     = [(Fin 2, Fin 2), (Fin 1, Fin 1), (NaN, NaN)]"
  by (simp add: update_step_3 members_def dup_boxes_def np_median_empty np_median_two np_median_pair)

lemma dup_assignment_1:
  "assignment_step Float64 dup_boxes 3 [(Fin 2, Fin 2), (Fin 1, Fin 1), (NaN, NaN)] = Inr [2, 2, 2]"
  by (simp add: dup_boxes_def assignment_step_def iou_cases fl_ge_def np_minimum_def small_arith)

lemma dup_members_all:
  "members dup_boxes [c, c, c] c' = (if c = c' then dup_boxes else [])"
  by (simp add: members_def dup_boxes_def)

lemma dup_update_1:
  "update_step Float64 np_median dup_boxes 3 [2, 2, 2] = [(NaN, NaN), (NaN, NaN), (Fin 1, Fin 1)]"
  by (simp add: update_step_3 dup_members_all np_median_empty np_median_dup)

lemma dup_assignment_2:
  "assignment_step Float64 dup_boxes 3 [(NaN, NaN), (NaN, NaN), (Fin 1, Fin 1)] = Inr [0, 0, 0]"
  by (simp add: dup_boxes_def assignment_step_def iou_cases fl_ge_def np_minimum_def small_arith)

lemma dup_update_2:
  "update_step Float64 np_median dup_boxes 3 [0, 0, 0] = [(Fin 1, Fin 1), (NaN, NaN), (NaN, NaN)]"
  by (simp add: update_step_3 dup_members_all np_median_empty np_median_dup)

lemma dup_assignment_3:
  "assignment_step Float64 dup_boxes 3 [(Fin 1, Fin 1), (NaN, NaN), (NaN, NaN)]
     = Inr [Suc 0, Suc 0, Suc 0]"
  by (simp add: dup_boxes_def assignment_step_def iou_cases fl_ge_def np_minimum_def small_arith)

lemma dup_update_3:
  "update_step Float64 np_median dup_boxes 3 [Suc 0, Suc 0, Suc 0]
     = [(NaN, NaN), (Fin 1, Fin 1), (NaN, NaN)]"
  by (simp add: update_step_3 dup_members_all np_median_empty np_median_dup)

lemma dup_assignment_4:
  "assignment_step Float64 dup_boxes 3 [(NaN, NaN), (Fin 1, Fin 1), (NaN, NaN)] = Inr [0, 0, 0]"
  by (simp add: dup_boxes_def assignment_step_def iou_cases fl_ge_def np_minimum_def small_arith)

text \<open>The two states of the cycle.\<close>

lemma dup_cycle:
  assumes "kmeans_loop dt d boxes k cl lc = Some y"
  shows "\<not> (dt = Float64 \<and> d = np_median \<and> boxes = dup_boxes \<and> k = 3 \<and>
     ((cl = [(Fin 1, Fin 1), (NaN, NaN), (NaN, NaN)] \<and> lc = [0, 0, 0]) \<or>
      (cl = [(NaN, NaN), (Fin 1, Fin 1), (NaN, NaN)] \<and> lc = [Suc 0, Suc 0, Suc 0])))"
proof -
  define P :: "dtype \<Rightarrow> (box list \<Rightarrow> box) \<Rightarrow> box list \<Rightarrow> int \<Rightarrow> box list \<Rightarrow> nat list
      \<Rightarrow> error + box list \<times> nat list \<Rightarrow> bool"
    where "P = (\<lambda>dt d boxes k cl lc y. \<not> (dt = Float64 \<and> d = np_median \<and> boxes = dup_boxes \<and> k = 3 \<and>
     ((cl = [(Fin 1, Fin 1), (NaN, NaN), (NaN, NaN)] \<and> lc = [0, 0, 0]) \<or>
      (cl = [(NaN, NaN), (Fin 1, Fin 1), (NaN, NaN)] \<and> lc = [Suc 0, Suc 0, Suc 0]))))"
  have "P dt d boxes k cl lc y"
  proof (rule kmeans_loop.raw_induct[where P = P, OF _ assms])
    fix loop dt d boxes k cl lc y
    assume IH: "\<And>dt d boxes k cl lc y. loop dt d boxes k cl lc = Some y \<Longrightarrow> P dt d boxes k cl lc y"
      and body: "(case assignment_step dt boxes k cl of
           Inl e \<Rightarrow> Some (Inl e)
         | Inr nearest_clusters \<Rightarrow>
             if lc = nearest_clusters then Some (Inr (cl, nearest_clusters))
             else loop dt d boxes k (update_step dt d boxes k nearest_clusters) nearest_clusters)
          = Some y"
    show "P dt d boxes k cl lc y"
      unfolding P_def
    proof (intro notI, elim conjE disjE)
      assume s: "dt = Float64" "d = np_median" "boxes = dup_boxes" "k = 3"
        "cl = [(Fin 1, Fin 1), (NaN, NaN), (NaN, NaN)]" "lc = [0, 0, 0]"
      with body have "loop Float64 np_median dup_boxes 3 [(NaN, NaN), (Fin 1, Fin 1), (NaN, NaN)]
          [Suc 0, Suc 0, Suc 0] = Some y"
        by (simp add: dup_assignment_3 dup_update_3)
      from IH[OF this] show False by (simp add: P_def)
    next
      assume s: "dt = Float64" "d = np_median" "boxes = dup_boxes" "k = 3"
        "cl = [(NaN, NaN), (Fin 1, Fin 1), (NaN, NaN)]" "lc = [Suc 0, Suc 0, Suc 0]"
      with body have "loop Float64 np_median dup_boxes 3 [(Fin 1, Fin 1), (NaN, NaN), (NaN, NaN)]
          [0, 0, 0] = Some y"
        by (simp add: dup_assignment_4 dup_update_2)
      from IH[OF this] show False by (simp add: P_def)
    qed
  qed
  then show ?thesis by (simp add: P_def)
qed

lemma duplicate_boxes_never_return:
  "random_choice (length dup_boxes) 3 [2, 0, 1] \<and>
   kmeans Float64 np_median dup_boxes 3 [2, 0, 1] = None"
proof -
  have "kmeans_loop Float64 np_median dup_boxes 3 [(Fin 1, Fin 1), (NaN, NaN), (NaN, NaN)] [0, 0, 0]
      = None"
    using dup_cycle[of Float64 np_median dup_boxes 3 "[(Fin 1, Fin 1), (NaN, NaN), (NaN, NaN)]"
        "[0, 0, 0]"]
    by (cases "kmeans_loop Float64 np_median dup_boxes 3
          [(Fin 1, Fin 1), (NaN, NaN), (NaN, NaN)] [0, 0, 0]")
      simp_all
  then have "kmeans_loop Float64 np_median dup_boxes 3 [(NaN, NaN), (NaN, NaN), (Fin 1, Fin 1)]
      [2, 2, 2] = None"
    by (subst kmeans_loop.simps) (simp add: dup_assignment_2 dup_update_2)
  then have "kmeans_loop Float64 np_median dup_boxes 3 [(Fin 2, Fin 2), (Fin 1, Fin 1), (NaN, NaN)]
      [Suc 0, Suc 0, 0] = None"
    by (subst kmeans_loop.simps) (simp add: dup_assignment_1 dup_update_1)
  then have "kmeans_loop Float64 np_median dup_boxes 3 [(Fin 2, Fin 2), (Fin 1, Fin 1), (Fin 1, Fin 1)]
      [0, 0, 0] = None"
    by (subst kmeans_loop.simps) (simp add: dup_assignment_0 dup_update_0)
  moreover have "kmeans_init dup_boxes 3 [2, 0, 1] = Inr [(Fin 2, Fin 2), (Fin 1, Fin 1), (Fin 1, Fin 1)]"
    by (simp add: kmeans_init_def dup_boxes_def)
  moreover have "replicate (length dup_boxes) 0 = [0, 0, 0::nat]"
    by (simp add: dup_boxes_def numeral_eq_Suc)
  ultimately have "kmeans Float64 np_median dup_boxes 3 [2, 0, 1] = None"
    by (simp add: kmeans_def kmeans_break_def)
  moreover have "random_choice (length dup_boxes) 3 [2, 0, 1]"
    by (simp add: random_choice_def dup_boxes_def)
  ultimately show ?thesis by simp
qed

section \<open>The concrete scenario\<close>

text \<open>
  \<^bold>\<open>C5\<close>, as the code has it. On the boxes (100,100), (100,100), (10,10),
  (10,10), in either dtype, with \<open>k = 2\<close> and the median: a run whose sample
  holds two different boxes returns them, (100,100) and (10,10) in the order of
  the sample, and the \<open>avg_iou\<close> of the dataset against them is 1.0; a run
  whose sample holds the same box twice breaks in its first iteration, on the
  assignment of every box to cluster 0, and returns that box twice.
\<close>

theorem scenario_converges_from_distinct_sample:
  assumes "random_choice (length scenario_boxes) 2 choice"
  shows "(scenario_boxes ! (choice ! 0) \<noteq> scenario_boxes ! (choice ! 1) \<longrightarrow>
      (\<exists>cs. kmeans dt np_median scenario_boxes 2 choice = Some (Inr cs) \<and>
         cs = [scenario_boxes ! (choice ! 0), scenario_boxes ! (choice ! 1)] \<and>
         set cs = {(Fin 100, Fin 100), (Fin 10, Fin 10)} \<and>
         avg_iou dt scenario_boxes cs = Inr (Fin 1))) \<and>
    (scenario_boxes ! (choice ! 0) = scenario_boxes ! (choice ! 1) \<longrightarrow>
      kmeans_break dt np_median scenario_boxes 2 choice =
        Some (Inr ([scenario_boxes ! (choice ! 0), scenario_boxes ! (choice ! 0)],
                   replicate (length scenario_boxes) 0)) \<and>
      kmeans dt np_median scenario_boxes 2 choice =
        Some (Inr [scenario_boxes ! (choice ! 0), scenario_boxes ! (choice ! 0)]))"
proof -
  have rows: "length scenario_boxes = 4" by (simp add: scenario_boxes_def)
  from random_choice_2[OF assms] have "choice ! 0 < 4" "choice ! 1 < 4"
    by (simp_all add: rows)
  then consider
      (AB) "scenario_boxes ! (choice ! 0) = (Fin 100, Fin 100)"
           "scenario_boxes ! (choice ! 1) = (Fin 10, Fin 10)"
    | (BA) "scenario_boxes ! (choice ! 0) = (Fin 10, Fin 10)"
           "scenario_boxes ! (choice ! 1) = (Fin 100, Fin 100)"
    | (AA) "scenario_boxes ! (choice ! 0) = (Fin 100, Fin 100)"
           "scenario_boxes ! (choice ! 1) = (Fin 100, Fin 100)"
    | (BB) "scenario_boxes ! (choice ! 0) = (Fin 10, Fin 10)"
           "scenario_boxes ! (choice ! 1) = (Fin 10, Fin 10)"
    using scenario_nth[of "choice ! 0"] scenario_nth[of "choice ! 1"] by blast
  then show ?thesis
  proof cases
    case AB
    then show ?thesis
      by (simp add: kmeans_def scenario_kmeans_break[OF assms] scenario_loop_AB scenario_avg_iou_AB)
  next
    case BA
    then show ?thesis
      by (simp add: kmeans_def scenario_kmeans_break[OF assms] scenario_loop_BA scenario_avg_iou_BA
          insert_commute)
  next
    case AA
    then show ?thesis
      by (simp add: kmeans_def scenario_kmeans_break[OF assms] scenario_loop_AA scenario_zeros)
  next
    case BB
    then show ?thesis
      by (simp add: kmeans_def scenario_kmeans_break[OF assms] scenario_loop_BB scenario_zeros)
  qed
qed

theorem scenario_converges_from_distinct_sample_witness:
  "kmeans Float64 np_median scenario_boxes 2 [3, 0]
     = Some (Inr [(Fin 10, Fin 10), (Fin 100, Fin 100)]) \<and>
   avg_iou Float64 scenario_boxes [(Fin 10, Fin 10), (Fin 100, Fin 100)] = Inr (Fin 1) \<and>
   kmeans Int64 np_median scenario_boxes 2 [3, 0]
     = Some (Inr [(Fin 10, Fin 10), (Fin 100, Fin 100)]) \<and>
   avg_iou Int64 scenario_boxes [(Fin 10, Fin 10), (Fin 100, Fin 100)] = Inr (Fin 1)"
proof -
  have "random_choice (length scenario_boxes) 2 [3, 0]"
    by (simp add: random_choice_def scenario_boxes_def)
  from scenario_converges_from_distinct_sample[OF this, of Float64]
    scenario_converges_from_distinct_sample[OF this, of Int64]
  show ?thesis
    by (simp add: scenario_boxes_def)
qed

text \<open>The sample of the indices 0 and 1 draws (100,100) twice: the first
  assignment is all zeros, the loop breaks at once, and the accuracy is 0.505.\<close>

theorem scenario_duplicate_sample_counterexample:
  "random_choice (length scenario_boxes) 2 [0, 1] \<and>
   kmeans Float64 np_median scenario_boxes 2 [0, 1]
     = Some (Inr [(Fin 100, Fin 100), (Fin 100, Fin 100)]) \<and>
   avg_iou Float64 scenario_boxes [(Fin 100, Fin 100), (Fin 100, Fin 100)] = Inr (Fin (101 / 200)) \<and>
   kmeans Int64 np_median scenario_boxes 2 [0, 1]
     = Some (Inr [(Fin 100, Fin 100), (Fin 100, Fin 100)])"
proof -
  have rc: "random_choice (length scenario_boxes) 2 [0, 1]"
    by (simp add: random_choice_def scenario_boxes_def)
  have nth: "scenario_boxes ! ([0, 1] ! 0) = (Fin 100, Fin 100)"
    "scenario_boxes ! ([0, 1] ! 1) = (Fin 100, Fin 100)"
    by (simp_all add: scenario_boxes_def)
  have "kmeans_break dt np_median scenario_boxes 2 [0, 1]
      = Some (Inr ([(Fin 100, Fin 100), (Fin 100, Fin 100)], [0, 0, 0, 0]))" for dt
    unfolding scenario_kmeans_break[OF rc] nth by (rule scenario_loop_AA)
  then have "kmeans dt np_median scenario_boxes 2 [0, 1]
      = Some (Inr [(Fin 100, Fin 100), (Fin 100, Fin 100)])" for dt
    by (simp add: kmeans_def)
  with rc show ?thesis by (simp add: scenario_avg_iou_AA)
qed

end
